theory Spec2Isabelle
  imports Main "HOL-Library.Sublist"
begin

section \<open>utils.py\<close>

text \<open>
  Python strings are modelled as \<open>string\<close> (a list of characters), Python's unbounded
  integers as \<open>int\<close>. An argument that has a default value in the source is an
  \<open>option\<close>: \<open>None\<close> when the caller leaves it out, \<open>Some v\<close> when the caller
  passes \<open>v\<close>.
\<close>

definition MAX_NAME_LENGTH :: int where
  "MAX_NAME_LENGTH = 100"

text \<open>\<open>len(s)\<close>: the number of characters, as a Python integer.\<close>

definition len :: "'a list \<Rightarrow> int" where
  "len xs = int (length xs)"

text \<open>
  \<open>sub in s\<close> on two strings (\<open>str.__contains__\<close>): \<open>sub\<close> occurs in \<open>s\<close> as a
  contiguous run of characters, searched from every start position.
\<close>

fun str_contains :: "string \<Rightarrow> string \<Rightarrow> bool" where
  "str_contains [] sub = (sub = [])"
| "str_contains (c # cs) sub = (prefix sub (c # cs) \<or> str_contains cs sub)"

text \<open>
  \<open>s[:stop]\<close>: Python's slice with only an upper bound. A negative bound counts from
  the end, and the adjusted bound is clamped to \<open>0 .. len(s)\<close>.
\<close>

definition slice_to :: "'a list \<Rightarrow> int \<Rightarrow> 'a list" where
  "slice_to xs stop =
     (let n = len xs;
          stop' = (if stop < 0 then (if stop + n < 0 then 0 else stop + n)
                   else (if stop \<ge> n then n else stop))
      in take (nat stop') xs)"

text \<open>
  \<^verbatim>\<open>
  def validate_email(email):
      return "@" in email and "." in email
  \<close>
\<close>

definition validate_email :: "string \<Rightarrow> bool" where
  "validate_email email = (str_contains email ''@'' \<and> str_contains email ''.'')"

text \<open>
  \<^verbatim>\<open>
  def truncate_name(name, max_length=MAX_NAME_LENGTH):
      if len(name) > max_length:
          return name[:max_length]
      return name
  \<close>
\<close>

definition truncate_name :: "string \<Rightarrow> int option \<Rightarrow> string" where
  "truncate_name name max_length_arg =
     (let max_length = (case max_length_arg of None \<Rightarrow> MAX_NAME_LENGTH | Some m \<Rightarrow> m)
      in if len name > max_length then slice_to name max_length else name)"

section \<open>models.py\<close>

text \<open>
  The class \<open>User\<close> is a record of its two instance attributes; the subclass
  \<open>Admin\<close> is the record extended by \<open>level\<close>. A function on \<open>'a User_scheme\<close>
  is a method of \<open>User\<close> that every subclass inherits.
\<close>

record User =
  name :: string
  email :: string

record Admin = User +
  level :: int

text \<open>
  \<^verbatim>\<open>
  def __init__(self, name, email):
      self.name = name
      self.email = email
  \<close>
\<close>

definition User_init :: "string \<Rightarrow> string \<Rightarrow> User" where
  "User_init name' email' = \<lparr>name = name', email = email'\<rparr>"

text \<open>
  \<^verbatim>\<open>
  def greet(self):
      return f"Hello, {self.name}!"
  \<close>
\<close>

definition greet :: "'a User_scheme \<Rightarrow> string" where
  "greet self = ''Hello, '' @ name self @ ''!''"

text \<open>The class attribute \<open>role = "admin"\<close>: read through any instance, stored in none.\<close>

definition role :: "'a Admin_scheme \<Rightarrow> string" where
  "role self = ''admin''"

text \<open>
  \<^verbatim>\<open>
  def __init__(self, name, email, level=1):
      super().__init__(name, email)
      self.level = level
  \<close>
\<close>

definition Admin_init :: "string \<Rightarrow> string \<Rightarrow> int option \<Rightarrow> Admin" where
  "Admin_init name' email' level_arg =
     (let level' = (case level_arg of None \<Rightarrow> 1 | Some l \<Rightarrow> l)
      in User.extend (User_init name' email') (Admin.fields level'))"

text \<open>
  \<^verbatim>\<open>
  def promote(self):
      self.level += 1
  \<close>
  The method mutates its receiver and returns \<open>None\<close>: the model returns the pair of
  the returned value (\<open>()\<close> for \<open>None\<close>) and the updated object.
\<close>

definition promote :: "Admin \<Rightarrow> unit \<times> Admin" where
  "promote self = ((), self\<lparr>level := level self + 1\<rparr>)"

section \<open>service.py\<close>

text \<open>
  \<open>get_greeting\<close> takes any Python object. The objects of the model are the instances
  of the two classes and the values of the other types the program handles, which have
  no attribute \<open>greet\<close>.
\<close>

datatype pyobj =
  User_obj User
| Admin_obj Admin
| Str_obj string
| Int_obj int
| Bool_obj bool
| None_obj

datatype error = AttributeError | TypeError

text \<open>
  \<open>x.greet()\<close>: the attribute lookup finds \<open>User.greet\<close> for an instance of \<open>User\<close> or
  of \<open>Admin\<close> and raises \<open>AttributeError\<close> for every other object.
\<close>

fun call_greet :: "pyobj \<Rightarrow> error + string" where
  "call_greet (User_obj u) = Inr (greet u)"
| "call_greet (Admin_obj a) = Inr (greet a)"
| "call_greet _ = Inl AttributeError"

definition create_user :: "string \<Rightarrow> string \<Rightarrow> User" where
  "create_user name' email' = User_init name' email'"

definition create_admin :: "string \<Rightarrow> string \<Rightarrow> int option \<Rightarrow> Admin" where
  "create_admin name' email' level_arg =
     (let level' = (case level_arg of None \<Rightarrow> 1 | Some l \<Rightarrow> l)
      in Admin_init name' email' (Some level'))"

definition get_greeting :: "pyobj \<Rightarrow> error + string" where
  "get_greeting user = call_greet user"

section \<open>The operations of the program\<close>

text \<open>
  The operations defined on an \<open>Admin\<close> object, and the object after a sequence of
  them. \<open>greet\<close> and \<open>get_greeting\<close> only read the object.
\<close>

datatype admin_op = Op_greet | Op_get_greeting | Op_promote

fun admin_step :: "Admin \<Rightarrow> admin_op \<Rightarrow> Admin" where
  "admin_step a Op_greet = a"
| "admin_step a Op_get_greeting = a"
| "admin_step a Op_promote = snd (promote a)"

definition admin_run :: "Admin \<Rightarrow> admin_op list \<Rightarrow> Admin" where
  "admin_run a ops = foldl admin_step a ops"

text \<open>
  Every call a client can make, with arguments of the types the data model gives them,
  and what the call gives back: the returned value or the error raised.
\<close>

datatype call =
  Call_User string string
| Call_Admin string string "int option"
| Call_greet_User User
| Call_greet_Admin Admin
| Call_promote Admin
| Call_create_user string string
| Call_create_admin string string "int option"
| Call_get_greeting pyobj
| Call_validate_email string
| Call_truncate_name string "int option"

fun invoke :: "call \<Rightarrow> error + pyobj" where
  "invoke (Call_User n e) = Inr (User_obj (User_init n e))"
| "invoke (Call_Admin n e l) = Inr (Admin_obj (Admin_init n e l))"
| "invoke (Call_greet_User u) = Inr (Str_obj (greet u))"
| "invoke (Call_greet_Admin a) = Inr (Str_obj (greet a))"
| "invoke (Call_promote a) = (case promote a of (r, a') \<Rightarrow> Inr None_obj)"
| "invoke (Call_create_user n e) = Inr (User_obj (create_user n e))"
| "invoke (Call_create_admin n e l) = Inr (Admin_obj (create_admin n e l))"
| "invoke (Call_get_greeting x) =
     (case get_greeting x of Inl err \<Rightarrow> Inl err | Inr s \<Rightarrow> Inr (Str_obj s))"
| "invoke (Call_validate_email s) = Inr (Bool_obj (validate_email s))"
| "invoke (Call_truncate_name s m) = Inr (Str_obj (truncate_name s m))"

section \<open>The program on run-time values\<close>

text \<open>
  Python checks the type of an operand when the operation runs. To say which calls raise,
  the functions of the program are given a second time, on run-time values: \<open>None\<close>,
  booleans, integers, strings, and objects, an object being its class and its instance
  dictionary. The attributes are those the program names. A value stored in an attribute
  is one of the four plain kinds; an object stored inside an object is outside the model,
  and so are lists, floats and callables. An object of a class other than \<open>User\<close> and
  \<open>Admin\<close> carries in its dictionary whatever a lookup through it finds.
\<close>

datatype atom = ANone | ABool bool | AInt int | AStr string

datatype pyclass = User_cls | Admin_cls | Other_cls

datatype field = Name | Email | Level | Role

datatype meth = Greet | Promote

type_synonym attrs = "((field + meth) \<times> atom) list"

datatype pyinst = Instance pyclass attrs

datatype pyval = Atom atom | Obj pyinst

text \<open>
  What an attribute lookup finds under the name of a method: a plain value assigned on
  the instance, or the class's function bound to the receiver.
\<close>

datatype attr = Data atom | Bound pyinst

text \<open>\<open>d[k] = v\<close>: an existing key keeps its place, a new one goes to the end.\<close>

fun dict_set :: "('k \<times> 'v) list \<Rightarrow> 'k \<Rightarrow> 'v \<Rightarrow> ('k \<times> 'v) list" where
  "dict_set [] k v = [(k, v)]"
| "dict_set ((k', v') # d) k v = (if k' = k then (k, v) # d else (k', v') # dict_set d k v)"

text \<open>The class bodies: \<open>Admin\<close> sets \<open>role\<close>; \<open>User\<close> defines \<open>greet\<close>, \<open>Admin\<close>
  inherits it and defines \<open>promote\<close>.\<close>

fun class_field :: "pyclass \<Rightarrow> field \<Rightarrow> atom option" where
  "class_field Admin_cls Role = Some (AStr ''admin'')"
| "class_field _ _ = None"

fun class_method :: "pyclass \<Rightarrow> meth \<Rightarrow> bool" where
  "class_method User_cls Greet = True"
| "class_method Admin_cls Greet = True"
| "class_method Admin_cls Promote = True"
| "class_method _ _ = False"

text \<open>
  \<open>self.f\<close> and \<open>self.f = a\<close>: the instance dictionary first, then the class;
  \<open>AttributeError\<close> when neither has the name.
\<close>

fun get_field :: "pyinst \<Rightarrow> field \<Rightarrow> error + atom" where
  "get_field (Instance cls d) f =
     (case map_of d (Inl f) of
        Some a \<Rightarrow> Inr a
      | None \<Rightarrow> (case class_field cls f of Some a \<Rightarrow> Inr a | None \<Rightarrow> Inl AttributeError))"

fun set_field :: "pyinst \<Rightarrow> field \<Rightarrow> atom \<Rightarrow> pyinst" where
  "set_field (Instance cls d) f a = Instance cls (dict_set d (Inl f) a)"

text \<open>
  \<open>x.m\<close> for a method name: an entry of the instance dictionary hides the class's
  function; \<open>None\<close>, booleans, integers and strings have neither \<open>greet\<close> nor \<open>promote\<close>.
\<close>

fun get_method :: "pyval \<Rightarrow> meth \<Rightarrow> attr option" where
  "get_method (Atom a) m = None"
| "get_method (Obj (Instance cls d)) m =
     (case map_of d (Inr m) of
        Some a \<Rightarrow> Some (Data a)
      | None \<Rightarrow> (if class_method cls m then Some (Bound (Instance cls d)) else None))"

text \<open>What \<open>{value}\<close> in an f-string puts into the text.\<close>

definition digit :: "nat \<Rightarrow> char" where
  "digit d = ''0123456789'' ! d"

fun digits :: "nat \<Rightarrow> string" where
  "digits n = (if n < 10 then [digit n] else digits (n div 10) @ [digit (n mod 10)])"

declare digits.simps [simp del]

fun py_format :: "atom \<Rightarrow> string" where
  "py_format (AStr s) = s"
| "py_format (AInt i) = (if i < 0 then ''-'' @ digits (nat (- i)) else digits (nat i))"
| "py_format (ABool b) = (if b then ''True'' else ''False'')"
| "py_format ANone = ''None''"

text \<open>
  The operators the program applies. \<open>sub in x\<close> and \<open>len(x)\<close> need a string; \<open>n > x\<close>
  with \<open>n\<close> an integer needs an integer or a boolean (which counts as 0 or 1);
  \<open>s[:x]\<close> needs a string and an integer, a boolean or \<open>None\<close>; \<open>x + 1\<close> needs an
  integer or a boolean. Anything else is a \<open>TypeError\<close>.
\<close>

fun py_in :: "string \<Rightarrow> pyval \<Rightarrow> error + bool" where
  "py_in sub (Atom (AStr s)) = Inr (str_contains s sub)"
| "py_in sub _ = Inl TypeError"

fun py_len :: "pyval \<Rightarrow> error + int" where
  "py_len (Atom (AStr s)) = Inr (len s)"
| "py_len _ = Inl TypeError"

fun py_gt :: "int \<Rightarrow> pyval \<Rightarrow> error + bool" where
  "py_gt n (Atom (AInt m)) = Inr (n > m)"
| "py_gt n (Atom (ABool b)) = Inr (n > (if b then 1 else 0))"
| "py_gt n _ = Inl TypeError"

fun py_slice_to :: "pyval \<Rightarrow> pyval \<Rightarrow> error + pyval" where
  "py_slice_to (Atom (AStr s)) (Atom (AInt m)) = Inr (Atom (AStr (slice_to s m)))"
| "py_slice_to (Atom (AStr s)) (Atom (ABool b)) =
     Inr (Atom (AStr (slice_to s (if b then 1 else 0))))"
| "py_slice_to (Atom (AStr s)) (Atom ANone) = Inr (Atom (AStr s))"
| "py_slice_to _ _ = Inl TypeError"

fun py_add_1 :: "atom \<Rightarrow> error + atom" where
  "py_add_1 (AInt i) = Inr (AInt (i + 1))"
| "py_add_1 (ABool b) = Inr (AInt ((if b then 1 else 0) + 1))"
| "py_add_1 _ = Inl TypeError"

text \<open>
  \<open>utils.py\<close>. In \<open>a and b\<close> the right operand is evaluated only when the left one is
  true.
\<close>

definition validate_email_dyn :: "pyval \<Rightarrow> error + pyval" where
  "validate_email_dyn email' =
     (case py_in ''@'' email' of
        Inl err \<Rightarrow> Inl err
      | Inr a \<Rightarrow>
          if a then (case py_in ''.'' email' of
                       Inl err \<Rightarrow> Inl err
                     | Inr b \<Rightarrow> Inr (Atom (ABool b)))
          else Inr (Atom (ABool a)))"

definition truncate_name_dyn :: "pyval \<Rightarrow> pyval option \<Rightarrow> error + pyval" where
  "truncate_name_dyn name' max_length_arg =
     (let max_length =
            (case max_length_arg of None \<Rightarrow> Atom (AInt MAX_NAME_LENGTH) | Some v \<Rightarrow> v)
      in case py_len name' of
           Inl err \<Rightarrow> Inl err
         | Inr n \<Rightarrow>
             (case py_gt n max_length of
                Inl err \<Rightarrow> Inl err
              | Inr longer \<Rightarrow> if longer then py_slice_to name' max_length else Inr name'))"

text \<open>
  \<open>models.py\<close>. \<open>User(name, email)\<close> runs \<open>__init__\<close> on a new object of the class
  with an empty dictionary, and likewise \<open>Admin(name, email, level)\<close>. A method body
  takes the receiver as \<open>self\<close>; \<open>promote\<close> gives back \<open>None\<close> and the updated receiver.
\<close>

definition User_init_dyn :: "pyinst \<Rightarrow> atom \<Rightarrow> atom \<Rightarrow> pyinst" where
  "User_init_dyn self name' email' = set_field (set_field self Name name') Email email'"

definition User_new :: "atom \<Rightarrow> atom \<Rightarrow> pyinst" where
  "User_new name' email' = User_init_dyn (Instance User_cls []) name' email'"

definition greet_dyn :: "pyinst \<Rightarrow> error + pyval" where
  "greet_dyn self =
     (case get_field self Name of
        Inl err \<Rightarrow> Inl err
      | Inr a \<Rightarrow> Inr (Atom (AStr (''Hello, '' @ py_format a @ ''!''))))"

definition Admin_init_dyn :: "pyinst \<Rightarrow> atom \<Rightarrow> atom \<Rightarrow> atom option \<Rightarrow> pyinst" where
  "Admin_init_dyn self name' email' level_arg =
     (let level' = (case level_arg of None \<Rightarrow> AInt 1 | Some l \<Rightarrow> l)
      in set_field (User_init_dyn self name' email') Level level')"

definition Admin_new :: "atom \<Rightarrow> atom \<Rightarrow> atom option \<Rightarrow> pyinst" where
  "Admin_new name' email' level_arg =
     Admin_init_dyn (Instance Admin_cls []) name' email' level_arg"

definition promote_dyn :: "pyinst \<Rightarrow> error + (pyval \<times> pyinst)" where
  "promote_dyn self =
     (case get_field self Level of
        Inl err \<Rightarrow> Inl err
      | Inr l \<Rightarrow>
          (case py_add_1 l of
             Inl err \<Rightarrow> Inl err
           | Inr l' \<Rightarrow> Inr (Atom ANone, set_field self Level l')))"

text \<open>
  \<open>service.py\<close>. \<open>user.greet()\<close> looks the attribute up and calls what it finds: no
  attribute is an \<open>AttributeError\<close>, a plain value is not callable (\<open>TypeError\<close>), the
  bound function runs the body of \<open>greet\<close>.
\<close>

definition create_user_dyn :: "atom \<Rightarrow> atom \<Rightarrow> pyinst" where
  "create_user_dyn name' email' = User_new name' email'"

definition create_admin_dyn :: "atom \<Rightarrow> atom \<Rightarrow> atom option \<Rightarrow> pyinst" where
  "create_admin_dyn name' email' level_arg =
     (let level' = (case level_arg of None \<Rightarrow> AInt 1 | Some l \<Rightarrow> l)
      in Admin_new name' email' (Some level'))"

definition get_greeting_dyn :: "pyval \<Rightarrow> error + pyval" where
  "get_greeting_dyn user =
     (case get_method user Greet of
        None \<Rightarrow> Inl AttributeError
      | Some (Data a) \<Rightarrow> Inl TypeError
      | Some (Bound self) \<Rightarrow> greet_dyn self)"

section \<open>What the specification says of truncation\<close>

text \<open>
  The specification's words for the result of \<open>truncate_name\<close>, to compare with the
  code: \<open>r\<close> is "the first \<open>k\<close> characters of \<open>s\<close>" when \<open>r\<close> is an initial
  segment of \<open>s\<close> and has \<open>k\<close> characters; the result is that when \<open>s\<close> is longer
  than the limit and \<open>s\<close> itself otherwise.
\<close>

definition first_chars_of :: "string \<Rightarrow> int \<Rightarrow> string \<Rightarrow> bool" where
  "first_chars_of r k s = (prefix r s \<and> len r = k)"

definition truncated_as_specified :: "string \<Rightarrow> int \<Rightarrow> string \<Rightarrow> bool" where
  "truncated_as_specified s max_length r =
     (if len s > max_length then first_chars_of r max_length s else r = s)"

section \<open>Substring search\<close>

lemma str_contains_sublist: "str_contains s sub = sublist sub s"
  by (induction s) (simp_all add: sublist_Cons_right)

lemma str_contains_char: "str_contains s [c] = (c \<in> set s)"
  by (induction s) (auto simp: prefix_Cons)

lemma validate_email_sublist:
  "validate_email s = (sublist ''@'' s \<and> sublist ''.'' s)"
  by (simp add: validate_email_def str_contains_sublist del: str_contains.simps)

text \<open>
  Claim C1. \<open>validate_email\<close> returns true exactly when its argument contains \<open>@\<close> as a
  substring and \<open>.\<close> as a substring, wherever they stand; so it accepts \<open>a@b.com\<close>,
  \<open>a.b@c\<close> and \<open>@.\<close> and rejects \<open>abc\<close>.
\<close>

theorem validate_email_iff:
  "validate_email email' =
     ((\<exists>ps ss. email' = ps @ ''@'' @ ss) \<and> (\<exists>ps ss. email' = ps @ ''.'' @ ss))
   \<and> validate_email ''a@b.com'' = True
   \<and> validate_email ''abc'' = False
   \<and> validate_email ''a.b@c'' = True
   \<and> validate_email ''@.'' = True"
proof -
  have general: "validate_email email' =
     ((\<exists>ps ss. email' = ps @ ''@'' @ ss) \<and> (\<exists>ps ss. email' = ps @ ''.'' @ ss))"
    unfolding validate_email_sublist sublist_def ..
  have e1: "validate_email ''a@b.com'' = True"
    by (simp add: validate_email_def)
  have e2: "validate_email ''abc'' = False"
    by (simp add: validate_email_def)
  have e3: "validate_email ''a.b@c'' = True"
    by (simp add: validate_email_def)
  have e4: "validate_email ''@.'' = True"
    by (simp add: validate_email_def)
  from general e1 e2 e3 e4 show ?thesis by blast
qed

section \<open>Truncation\<close>

lemma slice_to_nonneg: "0 \<le> m \<Longrightarrow> slice_to xs m = take (nat m) xs"
  by (simp add: slice_to_def len_def Let_def)

lemma truncate_name_nonneg: "0 \<le> m \<Longrightarrow> truncate_name s (Some m) = take (nat m) s"
  by (simp add: truncate_name_def slice_to_nonneg len_def)

lemma truncate_name_default: "truncate_name s None = truncate_name s (Some 100)"
  by (simp add: truncate_name_def MAX_NAME_LENGTH_def)

lemma truncate_name_default_take: "truncate_name s None = take 100 s"
  by (simp add: truncate_name_default truncate_name_nonneg)

text \<open>
  Claim C2, as the code has it. For every string and every limit that is not negative,
  \<open>truncate_name\<close> returns the first \<open>max_length\<close> characters of the string when the
  string is longer than the limit, and the string unchanged otherwise. Left out, the limit
  is \<open>MAX_NAME_LENGTH = 100\<close>: a string of 100 characters comes back unchanged, a string
  of 101 characters comes back as its first 100.
\<close>

theorem truncate_name_nonneg_spec:
  assumes "0 \<le> m"
  shows "truncated_as_specified s m (truncate_name s (Some m))
    \<and> truncate_name s (Some m) = (if len s > m then take (nat m) s else s)
    \<and> truncate_name s None = truncate_name s (Some MAX_NAME_LENGTH)
    \<and> MAX_NAME_LENGTH = 100
    \<and> (length s = 100 \<longrightarrow> truncate_name s None = s)
    \<and> (length s = 101 \<longrightarrow> truncate_name s None = take 100 s)"
proof -
  have t: "truncate_name s (Some m) = take (nat m) s"
    using assms by (rule truncate_name_nonneg)
  have a: "truncated_as_specified s m (truncate_name s (Some m))"
    using assms
    by (auto simp: t truncated_as_specified_def first_chars_of_def len_def take_is_prefix)
  have b: "truncate_name s (Some m) = (if len s > m then take (nat m) s else s)"
    using assms by (simp add: t len_def)
  have c: "truncate_name s None = truncate_name s (Some MAX_NAME_LENGTH)"
    by (simp add: truncate_name_def)
  have d: "MAX_NAME_LENGTH = 100"
    by (simp add: MAX_NAME_LENGTH_def)
  have e: "length s = 100 \<longrightarrow> truncate_name s None = s"
    by (simp add: truncate_name_default_take)
  have f: "length s = 101 \<longrightarrow> truncate_name s None = take 100 s"
    by (simp add: truncate_name_default_take)
  from a b c d e f show ?thesis by blast
qed

theorem truncate_name_nonneg_spec_witness:
  "(0::int) \<le> 5
   \<and> truncate_name ''abcdefghij'' (Some 5) = ''abcde''
   \<and> truncate_name ''hello'' (Some 10) = ''hello''
   \<and> length (replicate 100 CHR ''x'') = 100
   \<and> truncate_name (replicate 100 CHR ''x'') None = replicate 100 CHR ''x''
   \<and> length (replicate 101 CHR ''x'') = 101
   \<and> truncate_name (replicate 101 CHR ''x'') None = replicate 100 CHR ''x''"
proof -
  have h5: "(0::int) \<le> 5" and h10: "(0::int) \<le> 10"
    by simp_all
  have l100: "length (replicate 100 CHR ''x'') = 100"
    and l101: "length (replicate 101 CHR ''x'') = 101"
    by simp_all
  have a: "truncate_name ''abcdefghij'' (Some 5) = ''abcde''"
    using truncate_name_nonneg_spec [OF h5, of "''abcdefghij''"] by (simp add: len_def)
  have b: "truncate_name ''hello'' (Some 10) = ''hello''"
    using truncate_name_nonneg_spec [OF h10, of "''hello''"] by (simp add: len_def)
  have c: "truncate_name (replicate 100 CHR ''x'') None = replicate 100 CHR ''x''"
    using truncate_name_nonneg_spec [OF h5, of "replicate 100 CHR ''x''"] l100 by blast
  have "truncate_name (replicate 101 CHR ''x'') None = take 100 (replicate 101 CHR ''x'')"
    using truncate_name_nonneg_spec [OF h5, of "replicate 101 CHR ''x''"] l101 by blast
  then have d: "truncate_name (replicate 101 CHR ''x'') None = replicate 100 CHR ''x''"
    by simp
  from h5 a b l100 c l101 d show ?thesis by blast
qed

text \<open>
  Claim C2 as stated, for every limit, fails at a negative one: \<open>"abc"\<close> is longer than
  \<open>-1\<close>, and the slice \<open>"abc"[:-1]\<close> drops the last character, so the result \<open>"ab"\<close>
  has two characters, not \<open>max_length\<close> of them.
\<close>

theorem truncate_name_negative_counterexample:
  "truncate_name ''abc'' (Some (- 1)) = ''ab''
   \<and> \<not> truncated_as_specified ''abc'' (- 1) (truncate_name ''abc'' (Some (- 1)))"
  by (simp add: truncate_name_def slice_to_def len_def truncated_as_specified_def
      first_chars_of_def)

lemma truncate_name_negative_twice:
  assumes "m < 0"
  shows "truncate_name (truncate_name (replicate (nat (1 - m)) c) (Some m)) (Some m)
           \<noteq> truncate_name (replicate (nat (1 - m)) c) (Some m)"
proof -
  have once: "truncate_name (replicate (nat (1 - m)) c) (Some m) = [c]"
    using assms by (simp add: truncate_name_def slice_to_def len_def)
  have twice: "truncate_name [c] (Some m) = []"
    using assms by (simp add: truncate_name_def slice_to_def len_def)
  show ?thesis
    by (simp add: once twice)
qed

text \<open>
  Claim C10. For a limit that is not negative \<open>truncate_name\<close> is idempotent: its result
  has at most \<open>max_length\<close> characters and is an initial segment of the name, so a second
  call returns it unchanged; the same holds for the default limit. The hypothesis is
  needed: for every negative limit some name is shortened again by the second call.
\<close>

theorem truncate_name_idempotent:
  "(0 \<le> m \<longrightarrow>
      truncate_name (truncate_name s (Some m)) (Some m) = truncate_name s (Some m)
      \<and> len (truncate_name s (Some m)) \<le> m
      \<and> prefix (truncate_name s (Some m)) s)
   \<and> truncate_name (truncate_name s None) None = truncate_name s None
   \<and> (m < 0 \<longrightarrow>
      (\<exists>t. truncate_name (truncate_name t (Some m)) (Some m) \<noteq> truncate_name t (Some m)))"
proof -
  have a: "0 \<le> m \<longrightarrow>
      truncate_name (truncate_name s (Some m)) (Some m) = truncate_name s (Some m)
      \<and> len (truncate_name s (Some m)) \<le> m
      \<and> prefix (truncate_name s (Some m)) s"
    by (auto simp: truncate_name_nonneg len_def take_is_prefix)
  have b: "truncate_name (truncate_name s None) None = truncate_name s None"
    by (simp add: truncate_name_default_take)
  have c: "m < 0 \<longrightarrow>
      (\<exists>t. truncate_name (truncate_name t (Some m)) (Some m) \<noteq> truncate_name t (Some m))"
    using truncate_name_negative_twice [of m "CHR ''x''"] by blast
  from a b c show ?thesis by blast
qed

theorem truncate_name_idempotent_witness:
  "(0::int) \<le> 5
   \<and> truncate_name (truncate_name ''abcdefghij'' (Some 5)) (Some 5)
       = truncate_name ''abcdefghij'' (Some 5)
   \<and> truncate_name ''abcdefghij'' (Some 5) = ''abcde''
   \<and> (- 1 :: int) < 0
   \<and> (\<exists>t. truncate_name (truncate_name t (Some (- 1))) (Some (- 1))
            \<noteq> truncate_name t (Some (- 1)))
   \<and> truncate_name (truncate_name ''abc'' (Some (- 1))) (Some (- 1)) = ''a''
   \<and> truncate_name ''abc'' (Some (- 1)) = ''ab''"
proof -
  have h5: "(0::int) \<le> 5" and hn: "(- 1 :: int) < 0"
    by simp_all
  have a: "truncate_name (truncate_name ''abcdefghij'' (Some 5)) (Some 5)
       = truncate_name ''abcdefghij'' (Some 5)"
    using truncate_name_idempotent [of 5 "''abcdefghij''"] h5 by blast
  have b: "truncate_name ''abcdefghij'' (Some 5) = ''abcde''"
    by (simp add: truncate_name_def slice_to_def len_def)
  have c: "\<exists>t. truncate_name (truncate_name t (Some (- 1))) (Some (- 1))
            \<noteq> truncate_name t (Some (- 1))"
    using truncate_name_idempotent [of "- 1" "''abc''"] hn by blast
  have d: "truncate_name ''abc'' (Some (- 1)) = ''ab''"
    by (simp add: truncate_name_def slice_to_def len_def)
  have e: "truncate_name (truncate_name ''abc'' (Some (- 1))) (Some (- 1)) = ''a''"
    by (simp add: d) (simp add: truncate_name_def slice_to_def len_def)
  from h5 a b hn c d e show ?thesis by blast
qed

section \<open>Users and admins\<close>

lemma Admin_init_eq:
  "Admin_init n e la =
     \<lparr>name = n, email = e, level = (case la of None \<Rightarrow> 1 | Some l \<Rightarrow> l)\<rparr>"
  by (simp add: Admin_init_def User_init_def User.defs Admin.defs)

lemma create_admin_eq:
  "create_admin n e la =
     \<lparr>name = n, email = e, level = (case la of None \<Rightarrow> 1 | Some l \<Rightarrow> l)\<rparr>"
  by (simp add: create_admin_def Admin_init_eq)

text \<open>
  Claim C3. For every name and email, \<open>greet\<close> on the user constructed from them returns
  \<open>"Hello, "\<close> followed by the name and \<open>"!"\<close>, and the call raises nothing.
\<close>

theorem greet_User_init:
  "greet (User_init n e) = ''Hello, '' @ n @ ''!''
   \<and> greet (create_user n e) = ''Hello, '' @ n @ ''!''
   \<and> invoke (Call_greet_User (User_init n e)) = Inr (Str_obj (''Hello, '' @ n @ ''!''))"
  by (simp add: greet_def User_init_def create_user_def)

text \<open>
  Claim C4. For every admin, whatever its level (zero and negative levels too),
  \<open>promote\<close> leaves the level one higher than before; it checks no bound, raises nothing
  and returns \<open>None\<close>.
\<close>

theorem promote_level:
  "level (snd (promote a)) = level a + 1
   \<and> level (snd (promote (Admin_init n e (Some l)))) = l + 1
   \<and> level (snd (promote (Admin_init n e (Some 0)))) = 1
   \<and> level (snd (promote (Admin_init n e (Some (- 7))))) = - 6
   \<and> fst (promote a) = ()
   \<and> invoke (Call_promote a) = Inr None_obj"
  by (simp add: promote_def Admin_init_eq)

text \<open>
  Claim C5. For every user and every admin, \<open>get_greeting\<close> returns what the object's
  \<open>greet\<close> returns, and \<open>Admin\<close> has the \<open>greet\<close> of \<open>User\<close>: on the admin made by
  \<open>create_admin\<close> the greeting is \<open>"Hello, "\<close>, the name, \<open>"!"\<close>, for every name, email
  and level.
\<close>

theorem get_greeting_greet:
  "get_greeting x = call_greet x
   \<and> get_greeting (User_obj u) = Inr (greet u)
   \<and> get_greeting (Admin_obj a) = Inr (greet a)
   \<and> greet a = greet (User.truncate a)
   \<and> get_greeting (Admin_obj (create_admin n e la)) = Inr (''Hello, '' @ n @ ''!'')
   \<and> get_greeting (User_obj (create_user n e)) = Inr (''Hello, '' @ n @ ''!'')"
  by (simp add: get_greeting_def greet_def create_admin_eq create_user_def User_init_def
      User.defs)

text \<open>
  Claim C6. Constructing an admin stores the name and the email as constructing a user
  does and stores the level as given; a level left out is 1, so
  \<open>create_admin("A", "a@b.com")\<close> has level 1.
\<close>

theorem Admin_init_fields:
  "User.truncate (Admin_init n e la) = User_init n e
   \<and> name (Admin_init n e la) = n
   \<and> email (Admin_init n e la) = e
   \<and> level (Admin_init n e (Some l)) = l
   \<and> level (Admin_init n e None) = 1
   \<and> create_admin n e (Some l) = Admin_init n e (Some l)
   \<and> create_admin n e None = Admin_init n e None
   \<and> level (create_admin ''A'' ''a@b.com'' None) = 1
   \<and> create_admin ''A'' ''a@b.com'' None = \<lparr>name = ''A'', email = ''a@b.com'', level = 1\<rparr>"
  by (simp add: Admin_init_eq create_admin_eq User_init_def User.defs)

section \<open>The level of an admin\<close>

lemma admin_step_level:
  "level (admin_step a op) = level a + (if op = Op_promote then 1 else 0)"
  by (cases op) (simp_all add: promote_def)

lemma count_list_replicate: "count_list (replicate k x) x = k"
  by (induction k) simp_all

lemma admin_run_level:
  "level (admin_run a ops) = level a + int (count_list ops Op_promote)"
  unfolding admin_run_def
  by (induction ops arbitrary: a) (simp_all add: admin_step_level)

text \<open>
  Claim C7. Along every sequence of the defined operations, from any admin, the level
  never decreases: it is never below the level at construction nor below the level after
  any earlier part of the sequence. Only \<open>promote\<close> changes it, and \<open>promote\<close> raises it.
  Nothing bounds it from above: \<open>k\<close> promotions raise it by \<open>k\<close>.
\<close>

theorem admin_level_never_decreases:
  "level a \<le> level (admin_run a ops)
   \<and> level (admin_run a ops) \<le> level (admin_run a (ops @ ops2))
   \<and> level (Admin_init n e la) \<le> level (admin_run (Admin_init n e la) ops)
   \<and> (level (admin_step a op) \<noteq> level a) = (op = Op_promote)
   \<and> level a < level (admin_step a Op_promote)
   \<and> level (admin_run a (replicate k Op_promote)) = level a + int k"
proof -
  have a: "level a \<le> level (admin_run a ops)"
    and b: "level (admin_run a ops) \<le> level (admin_run a (ops @ ops2))"
    and c: "level (Admin_init n e la) \<le> level (admin_run (Admin_init n e la) ops)"
    by (simp_all add: admin_run_level)
  have d: "(level (admin_step a op) \<noteq> level a) = (op = Op_promote)"
    by (simp add: admin_step_level)
  have e: "level a < level (admin_step a Op_promote)"
    by (simp add: promote_def)
  have f: "level (admin_run a (replicate k Op_promote)) = level a + int k"
    by (simp add: admin_run_level count_list_replicate)
  from a b c d e f show ?thesis by blast
qed

text \<open>
  Claim C9. \<open>promote\<close> changes the level and nothing else: the name, the email and the
  role \<open>"admin"\<close> shared by the class are after the call what they were before.
\<close>

theorem promote_frame:
  "name (snd (promote a)) = name a
   \<and> email (snd (promote a)) = email a
   \<and> role (snd (promote a)) = role a
   \<and> role a = ''admin''
   \<and> User.truncate (snd (promote a)) = User.truncate a
   \<and> snd (promote a) = a\<lparr>level := level a + 1\<rparr>"
  by (simp add: promote_def role_def User.defs)

section \<open>Errors\<close>

lemma User_new_eq:
  "User_new n e = Instance User_cls [(Inl Name, n), (Inl Email, e)]"
  by (simp add: User_new_def User_init_dyn_def)

lemma Admin_new_eq:
  "Admin_new n e la =
     Instance Admin_cls [(Inl Name, n), (Inl Email, e),
                         (Inl Level, case la of None \<Rightarrow> AInt 1 | Some l \<Rightarrow> l)]"
  by (simp add: Admin_new_def Admin_init_dyn_def User_init_dyn_def)

lemma create_admin_dyn_eq: "create_admin_dyn n e la = Admin_new n e la"
  by (cases la) (simp_all add: create_admin_dyn_def Admin_new_eq)

lemma greet_dyn_User_new:
  "greet_dyn (User_new n e) = Inr (Atom (AStr (''Hello, '' @ py_format n @ ''!'')))"
  by (simp add: greet_dyn_def User_new_eq)

lemma greet_dyn_Admin_new:
  "greet_dyn (Admin_new n e la) = Inr (Atom (AStr (''Hello, '' @ py_format n @ ''!'')))"
  by (simp add: greet_dyn_def Admin_new_eq)

lemma get_greeting_dyn_User_new:
  "get_greeting_dyn (Obj (User_new n e)) =
     Inr (Atom (AStr (''Hello, '' @ py_format n @ ''!'')))"
  using greet_dyn_User_new [of n e] by (simp add: get_greeting_dyn_def User_new_eq)

lemma get_greeting_dyn_Admin_new:
  "get_greeting_dyn (Obj (Admin_new n e la)) =
     Inr (Atom (AStr (''Hello, '' @ py_format n @ ''!'')))"
  using greet_dyn_Admin_new [of n e la] by (simp add: get_greeting_dyn_def Admin_new_eq)

lemma promote_dyn_Admin_new:
  "promote_dyn (Admin_new n e (Some (AInt l))) =
     Inr (Atom ANone, Admin_new n e (Some (AInt (l + 1))))"
  by (simp add: promote_dyn_def Admin_new_eq)

lemma validate_email_dyn_text:
  "validate_email_dyn (Atom (AStr s)) = Inr (Atom (ABool (validate_email s)))"
  by (simp add: validate_email_dyn_def validate_email_def del: str_contains.simps)

lemma truncate_name_dyn_text:
  "truncate_name_dyn (Atom (AStr s)) (map_option (\<lambda>m. Atom (AInt m)) ma) =
     Inr (Atom (AStr (truncate_name s ma)))"
  by (cases ma) (simp_all add: truncate_name_dyn_def truncate_name_def)

lemma greet_dyn_not_TypeError: "greet_dyn self \<noteq> Inl TypeError"
  by (cases self) (simp add: greet_dyn_def split: option.splits)

lemma get_greeting_dyn_TypeError:
  "(get_greeting_dyn x = Inl TypeError) = (\<exists>a. get_method x Greet = Some (Data a))"
proof (cases "get_method x Greet")
  case None
  then show ?thesis by (simp add: get_greeting_dyn_def)
next
  case (Some r)
  then show ?thesis
    by (cases r) (simp_all add: get_greeting_dyn_def greet_dyn_not_TypeError)
qed

lemma get_greeting_dyn_AttributeError:
  "(get_greeting_dyn x = Inl AttributeError) =
     (get_method x Greet = None
      \<or> (\<exists>self. get_method x Greet = Some (Bound self)
                  \<and> get_field self Name = Inl AttributeError))"
proof (cases "get_method x Greet")
  case None
  then show ?thesis by (simp add: get_greeting_dyn_def)
next
  case (Some r)
  then show ?thesis
    by (cases r) (auto simp: get_greeting_dyn_def greet_dyn_def split: sum.splits)
qed

text \<open>
  Claim C8, as the code has it. \<open>get_greeting\<close> raises when its argument lacks the
  greeting capability: the missing-attribute error when the object has no attribute
  \<open>greet\<close>, a type error when its \<open>greet\<close> is a plain value, and otherwise only when
  \<open>greet\<close> itself finds no \<open>name\<close>. On arguments of the types the data model gives
  them every operation returns: \<open>greet\<close> and \<open>get_greeting\<close> on a user or an admin made
  by the constructors, \<open>promote\<close> on an admin whose level is an integer, \<open>truncate_name\<close>
  on a text with an integer limit or none, and \<open>validate_email\<close> on any text, which gives
  a boolean.
\<close>

theorem calls_on_data_model_return:
  "(get_method x Greet = None \<longrightarrow> get_greeting_dyn x = Inl AttributeError)
   \<and> (get_greeting_dyn x = Inl AttributeError) =
       (get_method x Greet = None
        \<or> (\<exists>self. get_method x Greet = Some (Bound self)
                    \<and> get_field self Name = Inl AttributeError))
   \<and> (get_greeting_dyn x = Inl TypeError) = (\<exists>a. get_method x Greet = Some (Data a))
   \<and> get_greeting_dyn (Obj (create_user_dyn n e)) =
       Inr (Atom (AStr (''Hello, '' @ py_format n @ ''!'')))
   \<and> get_greeting_dyn (Obj (create_admin_dyn n e la)) =
       Inr (Atom (AStr (''Hello, '' @ py_format n @ ''!'')))
   \<and> greet_dyn (User_new n e) = Inr (Atom (AStr (''Hello, '' @ py_format n @ ''!'')))
   \<and> greet_dyn (Admin_new n e la) = Inr (Atom (AStr (''Hello, '' @ py_format n @ ''!'')))
   \<and> py_format (AStr s) = s
   \<and> promote_dyn (create_admin_dyn n e (Some (AInt l))) =
       Inr (Atom ANone, Admin_new n e (Some (AInt (l + 1))))
   \<and> promote_dyn (create_admin_dyn n e None) =
       Inr (Atom ANone, Admin_new n e (Some (AInt 2)))
   \<and> validate_email_dyn (Atom (AStr s)) = Inr (Atom (ABool (validate_email s)))
   \<and> truncate_name_dyn (Atom (AStr s)) None = Inr (Atom (AStr (truncate_name s None)))
   \<and> truncate_name_dyn (Atom (AStr s)) (Some (Atom (AInt m))) =
       Inr (Atom (AStr (truncate_name s (Some m))))"
proof -
  have a: "get_method x Greet = None \<longrightarrow> get_greeting_dyn x = Inl AttributeError"
    by (simp add: get_greeting_dyn_def)
  have b: "(get_greeting_dyn x = Inl AttributeError) =
       (get_method x Greet = None
        \<or> (\<exists>self. get_method x Greet = Some (Bound self)
                    \<and> get_field self Name = Inl AttributeError))"
    by (rule get_greeting_dyn_AttributeError)
  have c: "(get_greeting_dyn x = Inl TypeError) = (\<exists>a. get_method x Greet = Some (Data a))"
    by (rule get_greeting_dyn_TypeError)
  have d: "get_greeting_dyn (Obj (create_user_dyn n e)) =
       Inr (Atom (AStr (''Hello, '' @ py_format n @ ''!'')))"
    by (simp add: create_user_dyn_def get_greeting_dyn_User_new)
  have e: "get_greeting_dyn (Obj (create_admin_dyn n e la)) =
       Inr (Atom (AStr (''Hello, '' @ py_format n @ ''!'')))"
    by (simp add: create_admin_dyn_eq get_greeting_dyn_Admin_new)
  have f: "greet_dyn (User_new n e) = Inr (Atom (AStr (''Hello, '' @ py_format n @ ''!'')))"
    by (rule greet_dyn_User_new)
  have g: "greet_dyn (Admin_new n e la) = Inr (Atom (AStr (''Hello, '' @ py_format n @ ''!'')))"
    by (rule greet_dyn_Admin_new)
  have h: "py_format (AStr s) = s"
    by simp
  have i: "promote_dyn (create_admin_dyn n e (Some (AInt l))) =
       Inr (Atom ANone, Admin_new n e (Some (AInt (l + 1))))"
    by (simp add: create_admin_dyn_eq promote_dyn_Admin_new)
  have j: "promote_dyn (create_admin_dyn n e None) =
       Inr (Atom ANone, Admin_new n e (Some (AInt 2)))"
    by (simp add: create_admin_dyn_eq promote_dyn_def Admin_new_eq)
  have k: "validate_email_dyn (Atom (AStr s)) = Inr (Atom (ABool (validate_email s)))"
    by (rule validate_email_dyn_text)
  have l: "truncate_name_dyn (Atom (AStr s)) None = Inr (Atom (AStr (truncate_name s None)))"
    using truncate_name_dyn_text [of s None] by simp
  have m: "truncate_name_dyn (Atom (AStr s)) (Some (Atom (AInt m))) =
       Inr (Atom (AStr (truncate_name s (Some m))))"
    using truncate_name_dyn_text [of s "Some m"] by simp
  from a b c d e f g h i j k l m show ?thesis by blast
qed

theorem calls_on_data_model_return_witness:
  "get_method (Atom (AStr ''abc'')) Greet = None
   \<and> get_greeting_dyn (Atom (AStr ''abc'')) = Inl AttributeError
   \<and> get_greeting_dyn (Obj (create_user_dyn (AStr ''Ann'') (AStr ''ann@b.com''))) =
       Inr (Atom (AStr ''Hello, Ann!''))
   \<and> promote_dyn (create_admin_dyn (AStr ''A'') (AStr ''a@b.com'') (Some (AInt (- 3)))) =
       Inr (Atom ANone, Admin_new (AStr ''A'') (AStr ''a@b.com'') (Some (AInt (- 2))))
   \<and> validate_email_dyn (Atom (AStr ''@.'')) = Inr (Atom (ABool True))
   \<and> truncate_name_dyn (Atom (AStr ''abcdefghij'')) (Some (Atom (AInt 5))) =
       Inr (Atom (AStr ''abcde''))"
proof -
  have h: "get_method (Atom (AStr ''abc'')) Greet = None"
    by simp
  note t = calls_on_data_model_return
    [of "Atom (AStr ''abc'')" "AStr ''Ann''" "AStr ''ann@b.com''" None "''@.''" "- 3" 5]
  note u = calls_on_data_model_return
    [of "Atom (AStr ''abc'')" "AStr ''A''" "AStr ''a@b.com''" None "''abcdefghij''" "- 3" 5]
  have a: "get_greeting_dyn (Atom (AStr ''abc'')) = Inl AttributeError"
    using t h by blast
  have b: "get_greeting_dyn (Obj (create_user_dyn (AStr ''Ann'') (AStr ''ann@b.com''))) =
       Inr (Atom (AStr ''Hello, Ann!''))"
    using t by simp
  have c: "promote_dyn (create_admin_dyn (AStr ''A'') (AStr ''a@b.com'') (Some (AInt (- 3)))) =
       Inr (Atom ANone, Admin_new (AStr ''A'') (AStr ''a@b.com'') (Some (AInt (- 2))))"
    using u by simp
  have v: "validate_email ''@.'' = True"
    by (simp add: validate_email_def)
  have d: "validate_email_dyn (Atom (AStr ''@.'')) = Inr (Atom (ABool True))"
    using t v by simp
  have w: "truncate_name ''abcdefghij'' (Some 5) = ''abcde''"
    by (simp add: truncate_name_def slice_to_def len_def)
  have e: "truncate_name_dyn (Atom (AStr ''abcdefghij'')) (Some (Atom (AInt 5))) =
       Inr (Atom (AStr ''abcde''))"
    using u w by simp
  from h a b c d e show ?thesis by blast
qed

text \<open>
  Claim C8 as stated, with \<open>get_greeting\<close> the only call that can raise, fails: the level
  is stored as given, so \<open>create_admin("A", "a@b.com", "x")\<close> returns an admin on which
  \<open>promote\<close> raises a type error; and \<open>truncate_name("abc", None)\<close> raises one at the
  comparison.
\<close>

theorem promote_text_level_counterexample:
  "promote_dyn (create_admin_dyn (AStr ''A'') (AStr ''a@b.com'') (Some (AStr ''x'')))
     = Inl TypeError
   \<and> truncate_name_dyn (Atom (AStr ''abc'')) (Some (Atom ANone)) = Inl TypeError"
  by (simp add: promote_dyn_def create_admin_dyn_eq Admin_new_eq truncate_name_dyn_def)

end
